theory Spec2Isabelle
  imports Main
begin

section \<open>Exceptions\<close>

text \<open>
  The classes of exception the module can meet. Every constructor stands for a subclass of
  Python's \<open>Exception\<close>, so the handler \<open>except Exception\<close> of \<open>RedisSink.log\<close>
  handles each of them; \<open>ConnectionError\<close> and \<open>ResponseError\<close> are the classes of
  \<open>redis.exceptions\<close>. The argument is the message, except for \<open>KeyError\<close>, which
  carries the missing key. \<open>UnicodeDecodeError\<close> is a subclass of \<open>ValueError\<close>, so
  \<open>except ValueError\<close> handles both. Asynchronous interrupts are outside the model.
\<close>

datatype exn =
    ConnectionError string
  | ResponseError string
  | TypeError string
  | ValueError string
  | UnicodeDecodeError string
  | KeyError string
  | IOError string
  | AttributeError string

fun is_ConnectionError :: "exn \<Rightarrow> bool" where
  "is_ConnectionError (ConnectionError m) = True"
| "is_ConnectionError e = False"

fun is_ValueError :: "exn \<Rightarrow> bool" where
  "is_ValueError (ValueError m) = True"
| "is_ValueError (UnicodeDecodeError m) = True"
| "is_ValueError e = False"

text \<open>\<open>str(e)\<close>: the message; for a \<open>KeyError\<close> the key between single quotes.\<close>

fun exn_str :: "exn \<Rightarrow> string" where
  "exn_str (ConnectionError m) = m"
| "exn_str (ResponseError m) = m"
| "exn_str (TypeError m) = m"
| "exn_str (ValueError m) = m"
| "exn_str (UnicodeDecodeError m) = m"
| "exn_str (KeyError k) = [CHR 0x27] @ k @ [CHR 0x27]"
| "exn_str (IOError m) = m"
| "exn_str (AttributeError m) = m"

text \<open>What leaves a function that can also end the process: \<open>sys.exit(n)\<close> raises
  \<open>SystemExit\<close>, which is not a subclass of \<open>Exception\<close>.\<close>

datatype raised = Raise exn | SystemExit int

section \<open>Python values and \<open>json.dumps\<close>\<close>

text \<open>
  The JSON-representable values of an event: \<open>None\<close>, booleans, integers, strings, lists and
  dictionaries with string keys, the dictionary as its items in iteration order. \<open>PObject\<close>
  is any value the encoder has no rule for (a set, say): \<open>json.dumps\<close> raises
  \<open>TypeError\<close> on it. A \<open>char\<close> stands for the code point of the same number; floats
  are not modelled.
\<close>

datatype pyval =
    PNone
  | PBool bool
  | PInt int
  | PStr string
  | PList "pyval list"
  | PDict "(string \<times> pyval) list"
  | PObject string

type_synonym kwargs = "(string \<times> pyval) list"

text \<open>\<open>str(n)\<close> for an integer: decimal digits, a minus sign for a negative number.\<close>

fun str_nat :: "nat \<Rightarrow> string" where
  "str_nat n =
     (if n < 10 then [char_of (48 + n)]
      else str_nat (n div 10) @ [char_of (48 + n mod 10)])"

declare str_nat.simps [simp del]

definition str_int :: "int \<Rightarrow> string" where
  "str_int i = (if i < 0 then CHR ''-'' # str_nat (nat (- i)) else str_nat (nat i))"

text \<open>
  The string encoder with \<open>ensure_ascii\<close> (the default): quote, backslash and the five
  short escapes, \<open>\uXXXX\<close> in lower-case hexadecimal for every other character outside
  the range from space to tilde.
\<close>

definition hex_digit :: "nat \<Rightarrow> char" where
  "hex_digit d = (if d < 10 then char_of (48 + d) else char_of (87 + d))"

definition escape_char :: "char \<Rightarrow> string" where
  "escape_char c =
     (if c = CHR 0x22 then [CHR 0x5C, CHR 0x22]
      else if c = CHR 0x5C then [CHR 0x5C, CHR 0x5C]
      else if c = CHR 0x0A then [CHR 0x5C, CHR ''n'']
      else if c = CHR 0x0D then [CHR 0x5C, CHR ''r'']
      else if c = CHR 0x09 then [CHR 0x5C, CHR ''t'']
      else if c = CHR 0x08 then [CHR 0x5C, CHR ''b'']
      else if c = CHR 0x0C then [CHR 0x5C, CHR ''f'']
      else if (of_char c :: nat) < 32 \<or> 126 < (of_char c :: nat)
        then [CHR 0x5C, CHR ''u'', CHR ''0'', CHR ''0'',
              hex_digit (of_char c div 16), hex_digit (of_char c mod 16)]
      else [c])"

definition encode_str :: "string \<Rightarrow> string" where
  "encode_str s = [CHR 0x22] @ concat (map escape_char s) @ [CHR 0x22]"

fun join :: "string \<Rightarrow> string list \<Rightarrow> string" where
  "join sep [] = []"
| "join sep [x] = x"
| "join sep (x # y # ys) = x @ sep @ join sep (y # ys)"

text \<open>The encoder with the default separators, \<open>', '\<close> between items and \<open>': '\<close>
  between a key and its value, and no indentation.\<close>

fun encode :: "pyval \<Rightarrow> string" where
  "encode PNone = ''null''"
| "encode (PBool b) = (if b then ''true'' else ''false'')"
| "encode (PInt i) = str_int i"
| "encode (PStr s) = encode_str s"
| "encode (PList xs) = ''['' @ join '', '' (map encode xs) @ '']''"
| "encode (PDict kvs) =
     ''{'' @ join '', '' (map (\<lambda>kv. encode_str (fst kv) @ '': '' @ encode (snd kv)) kvs) @ ''}''"
| "encode (PObject d) = []"

fun serializable :: "pyval \<Rightarrow> bool" where
  "serializable (PList xs) = list_all serializable xs"
| "serializable (PDict kvs) = list_all (\<lambda>kv. serializable (snd kv)) kvs"
| "serializable (PObject d) = False"
| "serializable v = True"

definition json_dumps :: "pyval \<Rightarrow> exn + string" where
  "json_dumps v =
     (if serializable v then Inr (encode v)
      else Inl (TypeError ''Object is not JSON serializable''))"

text \<open>\<open>cfg[k]\<close>: a dictionary raises \<open>KeyError\<close> for a missing key, any other value
  \<open>TypeError\<close> for a string index.\<close>

fun getitem :: "pyval \<Rightarrow> string \<Rightarrow> exn + pyval" where
  "getitem (PDict kvs) k = (case map_of kvs k of None \<Rightarrow> Inl (KeyError k) | Some v \<Rightarrow> Inr v)"
| "getitem v k = Inl (TypeError ''indices must be integers'')"

section \<open>The world outside the module\<close>

text \<open>
  The Redis servers, the standard output, the files and the logging framework are state
  outside the module. Whether a call of the Redis client library or a write succeeds is
  not decided by the module either: the world holds the outcomes of the coming external
  calls, in call order, and each external call takes the first one; when none is left the
  call succeeds. A call that raises has no effect beyond being recorded in \<open>calls\<close>.
\<close>

datatype outcome = Succeeds | Raises exn

record client =
  client_id :: nat
  client_host :: string
  client_port :: int
  client_db :: nat
  client_socket_timeout :: nat

datatype call =
    StrictRedis_call string int
  | Ping_call client
  | Rpush_call client string string
  | Print_call string
  | Open_call string
  | Read_call string

datatype level = INFO | ERROR

record world =
  outcomes :: "outcome list"
  redis_lists :: "string \<times> int \<times> nat \<Rightarrow> string \<Rightarrow> string list"
  calls :: "(call \<times> outcome) list"
  log_records :: "(string \<times> level \<times> string) list"
  stdout :: string
  files :: "string \<rightharpoonup> string"
  next_id :: nat

definition next_outcome :: "world \<Rightarrow> outcome" where
  "next_outcome w = (case outcomes w of [] \<Rightarrow> Succeeds | x # xs \<Rightarrow> x)"

definition take_outcome :: "call \<Rightarrow> world \<Rightarrow> outcome \<times> world" where
  "take_outcome c w =
     (next_outcome w,
      w\<lparr>outcomes := tl (outcomes w), calls := calls w @ [(c, next_outcome w)]\<rparr>)"

text \<open>The outcome of the \<open>n\<close>-th coming external call, counted from 0.\<close>

definition outcome_at :: "world \<Rightarrow> nat \<Rightarrow> outcome" where
  "outcome_at w n = (if n < length (outcomes w) then outcomes w ! n else Succeeds)"

text \<open>\<open>redis.StrictRedis(host=..., port=..., db=..., socket_timeout=...)\<close>: a new client
  object.\<close>

definition StrictRedis :: "string \<Rightarrow> int \<Rightarrow> nat \<Rightarrow> nat \<Rightarrow> world \<Rightarrow> (exn + client) \<times> world" where
  "StrictRedis h p d t w =
     (case take_outcome (StrictRedis_call h p) w of
        (Raises e, w1) \<Rightarrow> (Inl e, w1)
      | (Succeeds, w1) \<Rightarrow>
          (Inr \<lparr>client_id = next_id w1, client_host = h, client_port = p, client_db = d,
                client_socket_timeout = t\<rparr>,
           w1\<lparr>next_id := Suc (next_id w1)\<rparr>))"

definition client_ping :: "client \<Rightarrow> world \<Rightarrow> (exn + bool) \<times> world" where
  "client_ping c w =
     (case take_outcome (Ping_call c) w of
        (Raises e, w1) \<Rightarrow> (Inl e, w1)
      | (Succeeds, w1) \<Rightarrow> (Inr True, w1))"

text \<open>\<open>RPUSH key value\<close>: the value goes to the end of the list \<open>key\<close> of the client's
  server and database; the result is the new length.\<close>

definition client_rpush :: "client \<Rightarrow> string \<Rightarrow> string \<Rightarrow> world \<Rightarrow> (exn + nat) \<times> world" where
  "client_rpush c k v w =
     (case take_outcome (Rpush_call c k v) w of
        (Raises e, w1) \<Rightarrow> (Inl e, w1)
      | (Succeeds, w1) \<Rightarrow>
          (let srv = (client_host c, client_port c, client_db c);
               l = redis_lists w1 srv k @ [v]
           in (Inr (length l), w1\<lparr>redis_lists := (redis_lists w1)(srv := (redis_lists w1 srv)(k := l))\<rparr>)))"

definition py_print :: "string \<Rightarrow> world \<Rightarrow> (exn + unit) \<times> world" where
  "py_print s w =
     (case take_outcome (Print_call s) w of
        (Raises e, w1) \<Rightarrow> (Inl e, w1)
      | (Succeeds, w1) \<Rightarrow> (Inr (), w1\<lparr>stdout := stdout w1 @ s @ [CHR 0x0A]\<rparr>))"

text \<open>A record of a logger: the logger's name, the level, the message.\<close>

definition log_output_info :: "string \<Rightarrow> world \<Rightarrow> world" where
  "log_output_info m w = w\<lparr>log_records := log_records w @ [(''output'', INFO, m)]\<rparr>"

definition log_output_error :: "string \<Rightarrow> world \<Rightarrow> world" where
  "log_output_error m w = w\<lparr>log_records := log_records w @ [(''output'', ERROR, m)]\<rparr>"

definition logging_error :: "string \<Rightarrow> world \<Rightarrow> world" where
  "logging_error m w = w\<lparr>log_records := log_records w @ [(''root'', ERROR, m)]\<rparr>"

section \<open>The sinks\<close>

definition Sink_log :: "kwargs \<Rightarrow> world \<Rightarrow> (exn + unit) \<times> world" where
  "Sink_log kw w = (Inr (), w)"

definition StdoutSink_log :: "kwargs \<Rightarrow> world \<Rightarrow> (exn + unit) \<times> world" where
  "StdoutSink_log kw w =
     (case json_dumps (PDict kw) of
        Inl e \<Rightarrow> (Inl e, w)
      | Inr text \<Rightarrow> py_print text w)"

text \<open>The attributes of a \<open>RedisSink\<close>; \<open>conn\<close> is \<open>_conn\<close>, \<open>None\<close> while the
  attribute is not set.\<close>

record RedisSink =
  host :: string
  port :: int
  key :: string
  conn :: "client option"

text \<open>\<open>_connect\<close>: the new client is stored in \<open>_conn\<close>, then pinged.\<close>

definition RedisSink_connect :: "RedisSink \<Rightarrow> world \<Rightarrow> (exn + unit) \<times> RedisSink \<times> world" where
  "RedisSink_connect s w =
     (case StrictRedis (host s) (port s) 0 30 w of
        (Inl e, w1) \<Rightarrow> (Inl e, s, w1)
      | (Inr c, w1) \<Rightarrow>
          (let s1 = s\<lparr>conn := Some c\<rparr> in
           case client_ping c w1 of
             (Inl e, w2) \<Rightarrow> (Inl e, s1, w2)
           | (Inr b, w2) \<Rightarrow> (Inr (), s1, w2)))"

text \<open>\<open>__init__(host, key, port=6379)\<close>; the port is \<open>None\<close> when the caller leaves it
  out.\<close>

definition RedisSink_init :: "string \<Rightarrow> string \<Rightarrow> int option \<Rightarrow> world \<Rightarrow> (exn + RedisSink) \<times> world" where
  "RedisSink_init h k p w =
     (let s = \<lparr>host = h, port = (case p of None \<Rightarrow> 6379 | Some q \<Rightarrow> q), key = k, conn = None\<rparr> in
      case RedisSink_connect s w of
        (Inl e, s1, w1) \<Rightarrow> (Inl e, w1)
      | (Inr u, s1, w1) \<Rightarrow> (Inr s1, w1))"

text \<open>The statement \<open>self._conn.rpush(self.key, json.dumps(kwargs))\<close>, which \<open>log\<close>
  runs in both attempts: the attribute is read, the event serialized, the call made.\<close>

definition rpush_event :: "RedisSink \<Rightarrow> kwargs \<Rightarrow> world \<Rightarrow> (exn + nat) \<times> world" where
  "rpush_event s kw w =
     (case conn s of
        None \<Rightarrow> (Inl (AttributeError ''RedisSink object has no attribute _conn''), w)
      | Some c \<Rightarrow>
          (case json_dumps (PDict kw) of
             Inl e \<Rightarrow> (Inl e, w)
           | Inr text \<Rightarrow> client_rpush c (key s) text w))"

definition reconnected_message :: "RedisSink \<Rightarrow> string" where
  "reconnected_message s = ''Redis: reconnected to server '' @ host s @ '':'' @ str_int (port s)"

definition RedisSink_log :: "RedisSink \<Rightarrow> kwargs \<Rightarrow> world \<Rightarrow> (exn + unit) \<times> RedisSink \<times> world" where
  "RedisSink_log s kw w =
     (case rpush_event s kw w of
        (Inr n, w1) \<Rightarrow> (Inr (), s, w1)
      | (Inl e1, w1) \<Rightarrow>
          if is_ConnectionError e1 then
            (case RedisSink_connect s w1 of
               (Inl e2, s2, w2) \<Rightarrow> (Inr (), s2, log_output_error (''Redis: '' @ exn_str e2) w2)
             | (Inr u, s2, w2) \<Rightarrow>
                 (case rpush_event s2 kw (log_output_info (reconnected_message s2) w2) of
                    (Inl e2, w3) \<Rightarrow> (Inr (), s2, log_output_error (''Redis: '' @ exn_str e2) w3)
                  | (Inr n, w3) \<Rightarrow> (Inr (), s2, w3)))
          else (Inl e1, s, w1))"

definition RedisSink_ping :: "RedisSink \<Rightarrow> world \<Rightarrow> (exn + bool) \<times> world" where
  "RedisSink_ping s w =
     (case conn s of
        None \<Rightarrow> (Inl (AttributeError ''RedisSink object has no attribute _conn''), w)
      | Some c \<Rightarrow> client_ping c w)"

section \<open>Reading the configuration\<close>

text \<open>
  \<open>open(cfgfile, 'r')\<close> raises when the file is not there or the system refuses it;
  the result stands for the file object. \<open>f.read()\<close> gives the text of the file, or
  raises: an I/O error, or \<open>UnicodeDecodeError\<close> when the bytes cannot be decoded.
\<close>

definition py_open :: "string \<Rightarrow> world \<Rightarrow> (exn + string) \<times> world" where
  "py_open path w =
     (case files w path of
        None \<Rightarrow> (Inl (IOError ''No such file or directory''), w)
      | Some t \<Rightarrow>
          (case take_outcome (Open_call path) w of
             (Raises e, w1) \<Rightarrow> (Inl e, w1)
           | (Succeeds, w1) \<Rightarrow> (Inr path, w1)))"

definition file_read :: "string \<Rightarrow> world \<Rightarrow> (exn + string) \<times> world" where
  "file_read f w =
     (case take_outcome (Read_call f) w of
        (Raises e, w1) \<Rightarrow> (Inl e, w1)
      | (Succeeds, w1) \<Rightarrow>
          (case files w1 f of
             None \<Rightarrow> (Inl (IOError ''No such file or directory''), w1)
           | Some t \<Rightarrow> (Inr t, w1)))"

text \<open>
  \<open>read_config\<close> opens the file, reads and parses its text inside the \<open>try\<close> block,
  and returns the entries \<open>input\<close> and \<open>output\<close>. The parser \<open>json.loads\<close> of the
  standard library is the parameter \<open>loads\<close>. The handler \<open>except ValueError\<close> guards
  the read and the parser alike: it logs the error and calls \<open>sys.exit(-1)\<close>; any other
  exception of the block goes on to the caller. The subscripts are outside the block.
\<close>

definition except_ValueError :: "exn \<Rightarrow> world \<Rightarrow> (raised + pyval \<times> pyval) \<times> world" where
  "except_ValueError e w =
     (if is_ValueError e
      then (Inl (SystemExit (- 1)),
            logging_error (''Could not read config file: '' @ exn_str e) w)
      else (Inl (Raise e), w))"

definition read_config ::
  "(string \<Rightarrow> exn + pyval) \<Rightarrow> string \<Rightarrow> world \<Rightarrow> (raised + pyval \<times> pyval) \<times> world" where
  "read_config loads cfgfile w =
     (case py_open cfgfile w of
        (Inl e, w1) \<Rightarrow> (Inl (Raise e), w1)
      | (Inr f, w1) \<Rightarrow>
          (case file_read f w1 of
             (Inl e, w2) \<Rightarrow> except_ValueError e w2
           | (Inr text, w2) \<Rightarrow>
               (case loads text of
                  Inl e \<Rightarrow> except_ValueError e w2
                | Inr cfg \<Rightarrow>
                    (case getitem cfg ''input'' of
                       Inl e \<Rightarrow> (Inl (Raise e), w2)
                     | Inr i \<Rightarrow>
                         (case getitem cfg ''output'' of
                            Inl e \<Rightarrow> (Inl (Raise e), w2)
                          | Inr out \<Rightarrow> (Inr (i, out), w2))))))"

section \<open>Observations on a run\<close>

text \<open>
  What a run has done is read off the world: the successful appends, the append attempts
  and the client objects created so far, and the log records of a level.
\<close>

fun ok_rpush :: "call \<times> outcome \<Rightarrow> bool" where
  "ok_rpush (Rpush_call c k v, Succeeds) = True"
| "ok_rpush x = False"

fun rpush_attempt :: "call \<times> outcome \<Rightarrow> bool" where
  "rpush_attempt (Rpush_call c k v, r) = True"
| "rpush_attempt x = False"

fun client_created :: "call \<times> outcome \<Rightarrow> bool" where
  "client_created (StrictRedis_call h p, r) = True"
| "client_created x = False"

definition appends :: "world \<Rightarrow> nat" where
  "appends w = length (filter ok_rpush (calls w))"

definition rpush_attempts :: "world \<Rightarrow> nat" where
  "rpush_attempts w = length (filter rpush_attempt (calls w))"

definition connects :: "world \<Rightarrow> nat" where
  "connects w = length (filter client_created (calls w))"

definition records_at :: "level \<Rightarrow> world \<Rightarrow> nat" where
  "records_at l w = length (filter (\<lambda>r. fst (snd r) = l) (log_records w))"

section \<open>Example inputs\<close>

text \<open>A world in which every call succeeds and nothing has happened yet; the sink that
  \<open>RedisSink(host="localhost", port=6379, key="events")\<close> builds in it, and the world
  after that construction; the event \<open>log(level="error", msg="disk full")\<close>.\<close>

definition fresh_world :: world where
  "fresh_world =
     \<lparr>outcomes = [], redis_lists = (\<lambda>srv k. []), calls = [], log_records = [], stdout = [],
      files = Map.empty, next_id = 0\<rparr>"

definition example_client :: client where
  "example_client =
     \<lparr>client_id = 0, client_host = ''localhost'', client_port = 6379, client_db = 0,
      client_socket_timeout = 30\<rparr>"

definition example_sink :: RedisSink where
  "example_sink = \<lparr>host = ''localhost'', port = 6379, key = ''events'', conn = Some example_client\<rparr>"

definition example_world :: world where
  "example_world =
     fresh_world\<lparr>calls := [(StrictRedis_call ''localhost'' 6379, Succeeds),
                           (Ping_call example_client, Succeeds)],
                 next_id := 1\<rparr>"

definition example_event :: kwargs where
  "example_event = [(''level'', PStr ''error''), (''msg'', PStr ''disk full'')]"

text \<open>Worlds in which the stored connection has dropped: in \<open>reset_world\<close> only the
  first call fails, in \<open>refused_world\<close> the ping of the new client fails as well.\<close>

definition reset_world :: world where
  "reset_world = example_world\<lparr>outcomes := [Raises (ConnectionError ''Connection reset by peer'')]\<rparr>"

definition refused_world :: world where
  "refused_world =
     example_world\<lparr>outcomes := [Raises (ConnectionError ''Connection reset by peer''), Succeeds,
                                  Raises (ConnectionError ''Connection refused'')]\<rparr>"

text \<open>A configuration file with no \<open>output\<close>, one that holds a list, and a parser that
  knows these two texts.\<close>

definition example_config :: string where
  \<open>example_config = ''{"input": []}''\<close>

definition example_loads :: "string \<Rightarrow> exn + pyval" where
  "example_loads t =
     (if t = example_config then Inr (PDict [(''input'', PList [])])
      else if t = ''[]'' then Inr (PList [])
      else Inl (ValueError ''No JSON object could be decoded''))"

definition config_world :: world where
  "config_world =
     fresh_world\<lparr>files := [''logstash.json'' \<mapsto> example_config, ''list.json'' \<mapsto> ''[]'']\<rparr>"

section \<open>Effects of the external calls\<close>

lemma take_outcome_world:
  "take_outcome c w = (r, w1) \<Longrightarrow>
     r = next_outcome w \<and>
     calls w1 = calls w @ [(c, r)] \<and> log_records w1 = log_records w \<and>
     redis_lists w1 = redis_lists w \<and> stdout w1 = stdout w \<and> files w1 = files w \<and>
     next_id w1 = next_id w"
  by (auto simp: take_outcome_def)

lemma outcome_at_0: "outcome_at w 0 = next_outcome w"
  by (cases "outcomes w") (simp_all add: outcome_at_def next_outcome_def)

lemma outcome_at_take: "outcome_at (snd (take_outcome c w)) n = outcome_at w (Suc n)"
  by (cases "outcomes w") (simp_all add: outcome_at_def take_outcome_def)

lemma outcome_at_next_id: "outcome_at (w\<lparr>next_id := i\<rparr>) n = outcome_at w n"
  by (simp add: outcome_at_def)

lemma StrictRedis_cases:
  "StrictRedis h p d t w =
     (case outcome_at w 0 of
        Raises e \<Rightarrow> (Inl e, snd (take_outcome (StrictRedis_call h p) w))
      | Succeeds \<Rightarrow>
          (Inr \<lparr>client_id = next_id w, client_host = h, client_port = p, client_db = d,
                client_socket_timeout = t\<rparr>,
           (snd (take_outcome (StrictRedis_call h p) w))\<lparr>next_id := Suc (next_id w)\<rparr>))"
  by (simp add: StrictRedis_def outcome_at_0 take_outcome_def split: outcome.splits)

lemma client_ping_cases:
  "client_ping c w =
     (case outcome_at w 0 of
        Raises e \<Rightarrow> (Inl e, snd (take_outcome (Ping_call c) w))
      | Succeeds \<Rightarrow> (Inr True, snd (take_outcome (Ping_call c) w)))"
  by (simp add: client_ping_def outcome_at_0 take_outcome_def split: outcome.splits)

lemma client_rpush_ok:
  assumes "client_rpush c k v w = (Inr n, w1)"
  shows "calls w1 = calls w @ [(Rpush_call c k v, Succeeds)]"
    and "log_records w1 = log_records w"
    and "redis_lists w1 (client_host c, client_port c, client_db c) k =
           redis_lists w (client_host c, client_port c, client_db c) k @ [v]"
  using assms
  by (auto simp: client_rpush_def Let_def split: prod.splits outcome.splits dest!: take_outcome_world)

lemma client_rpush_fail:
  assumes "client_rpush c k v w = (Inl e, w1)"
  shows "calls w1 = calls w @ [(Rpush_call c k v, Raises e)]"
    and "log_records w1 = log_records w"
    and "redis_lists w1 = redis_lists w"
  using assms
  by (auto simp: client_rpush_def Let_def split: prod.splits outcome.splits dest!: take_outcome_world)

section \<open>Effects of one append attempt and of \<open>_connect\<close>\<close>

lemma rpush_event_ok:
  assumes "rpush_event s kw w = (Inr n, w1)"
  shows "\<exists>c text. conn s = Some c \<and> json_dumps (PDict kw) = Inr text \<and>
           calls w1 = calls w @ [(Rpush_call c (key s) text, Succeeds)] \<and>
           log_records w1 = log_records w \<and>
           redis_lists w1 (client_host c, client_port c, client_db c) (key s) =
             redis_lists w (client_host c, client_port c, client_db c) (key s) @ [text]"
  using assms
  by (auto simp: rpush_event_def split: option.splits sum.splits dest: client_rpush_ok)

lemma rpush_event_fail:
  assumes "rpush_event s kw w = (Inl e, w1)"
  shows "log_records w1 = log_records w \<and> redis_lists w1 = redis_lists w \<and>
         (calls w1 = calls w \<and> \<not> is_ConnectionError e \<or>
          (\<exists>c text. calls w1 = calls w @ [(Rpush_call c (key s) text, Raises e)]))"
  using assms
  by (auto simp: rpush_event_def json_dumps_def split: option.splits sum.splits if_splits
      dest: client_rpush_fail)

lemma rpush_event_counts_ok:
  assumes "rpush_event s kw w = (Inr n, w1)"
  shows "appends w1 = Suc (appends w) \<and> rpush_attempts w1 = Suc (rpush_attempts w) \<and>
         connects w1 = connects w \<and> log_records w1 = log_records w \<and>
         records_at l w1 = records_at l w"
  using rpush_event_ok [OF assms]
  by (auto simp: appends_def rpush_attempts_def connects_def records_at_def)

lemma rpush_event_counts_fail:
  assumes "rpush_event s kw w = (Inl e, w1)"
  shows "appends w1 = appends w \<and> rpush_attempts w1 \<le> Suc (rpush_attempts w) \<and>
         (is_ConnectionError e \<longrightarrow> rpush_attempts w1 = Suc (rpush_attempts w)) \<and>
         connects w1 = connects w \<and> log_records w1 = log_records w \<and>
         records_at l w1 = records_at l w \<and> redis_lists w1 = redis_lists w"
  using rpush_event_fail [OF assms]
  by (auto simp: appends_def rpush_attempts_def connects_def records_at_def)

lemma rpush_event_log_info:
  "rpush_event s kw (log_output_info m w) =
     (fst (rpush_event s kw w), log_output_info m (snd (rpush_event s kw w)))"
  by (simp add: rpush_event_def client_rpush_def take_outcome_def next_outcome_def
      log_output_info_def Let_def split: option.splits sum.splits outcome.splits list.splits)

lemma connect_world:
  assumes "RedisSink_connect s w = (r, s1, w1)"
  shows "log_records w1 = log_records w \<and> records_at l w1 = records_at l w \<and>
         redis_lists w1 = redis_lists w \<and>
         appends w1 = appends w \<and> rpush_attempts w1 = rpush_attempts w \<and>
         connects w1 = Suc (connects w) \<and>
         host s1 = host s \<and> port s1 = port s \<and> key s1 = key s"
  using assms
  by (auto simp: RedisSink_connect_def StrictRedis_def client_ping_def Let_def appends_def
        rpush_attempts_def connects_def records_at_def
      split: prod.splits outcome.splits sum.splits dest!: take_outcome_world)

lemma connect_cases:
  "RedisSink_connect s w = (r, s1, w1) \<Longrightarrow>
     (\<forall>e. outcome_at w 0 = Raises e \<longrightarrow> r = Inl e \<and> s1 = s) \<and>
     (outcome_at w 0 = Succeeds \<longrightarrow>
        s1 = s\<lparr>conn := Some \<lparr>client_id = next_id w, client_host = host s, client_port = port s,
                              client_db = 0, client_socket_timeout = 30\<rparr>\<rparr> \<and>
        (\<forall>e. outcome_at w (Suc 0) = Raises e \<longrightarrow> r = Inl e) \<and>
        (outcome_at w (Suc 0) = Succeeds \<longrightarrow> r = Inr ()))"
  by (auto simp: RedisSink_connect_def StrictRedis_cases client_ping_cases Let_def
        outcome_at_next_id outcome_at_take
      split: outcome.splits)

lemma rpush_event_conn_fail:
  assumes "rpush_event s kw w = (Inl e, w1)" and "is_ConnectionError e"
  shows "\<exists>c text. conn s = Some c \<and> json_dumps (PDict kw) = Inr text \<and>
           calls w1 = calls w @ [(Rpush_call c (key s) text, Raises e)] \<and>
           next_id w1 = next_id w"
  using assms
  by (auto simp: rpush_event_def json_dumps_def client_rpush_def take_outcome_def Let_def
      split: option.splits sum.splits if_splits outcome.splits)

lemma connect_ok_trace:
  assumes "RedisSink_connect s w = (Inr (), s1, w1)"
  shows "s1 = s\<lparr>conn := Some \<lparr>client_id = next_id w, client_host = host s, client_port = port s,
                              client_db = 0, client_socket_timeout = 30\<rparr>\<rparr> \<and>
         calls w1 = calls w @
           [(StrictRedis_call (host s) (port s), Succeeds),
            (Ping_call \<lparr>client_id = next_id w, client_host = host s, client_port = port s,
                        client_db = 0, client_socket_timeout = 30\<rparr>, Succeeds)]"
  using assms
  by (auto simp: RedisSink_connect_def StrictRedis_def client_ping_def take_outcome_def Let_def
      split: outcome.splits)

lemma log_output_info_world:
  "calls (log_output_info m w) = calls w \<and> redis_lists (log_output_info m w) = redis_lists w \<and>
   appends (log_output_info m w) = appends w \<and>
   rpush_attempts (log_output_info m w) = rpush_attempts w \<and>
   connects (log_output_info m w) = connects w \<and>
   records_at ERROR (log_output_info m w) = records_at ERROR w \<and>
   log_records (log_output_info m w) = log_records w @ [(''output'', INFO, m)]"
  by (simp add: log_output_info_def appends_def rpush_attempts_def connects_def records_at_def)

lemma log_output_error_world:
  "calls (log_output_error m w) = calls w \<and> redis_lists (log_output_error m w) = redis_lists w \<and>
   appends (log_output_error m w) = appends w \<and>
   rpush_attempts (log_output_error m w) = rpush_attempts w \<and>
   connects (log_output_error m w) = connects w \<and>
   records_at ERROR (log_output_error m w) = Suc (records_at ERROR w) \<and>
   log_records (log_output_error m w) = log_records w @ [(''output'', ERROR, m)]"
  by (simp add: log_output_error_def appends_def rpush_attempts_def connects_def records_at_def)

section \<open>The paths through \<open>RedisSink.log\<close>\<close>

lemma log_first_ok:
  "rpush_event s kw w = (Inr n, w1) \<Longrightarrow> RedisSink_log s kw w = (Inr (), s, w1)"
  by (simp add: RedisSink_log_def)

lemma log_first_other:
  "rpush_event s kw w = (Inl e1, w1) \<Longrightarrow> \<not> is_ConnectionError e1 \<Longrightarrow>
     RedisSink_log s kw w = (Inl e1, s, w1)"
  by (simp add: RedisSink_log_def)

lemma log_connect_fails:
  "rpush_event s kw w = (Inl e1, w1) \<Longrightarrow> is_ConnectionError e1 \<Longrightarrow>
   RedisSink_connect s w1 = (Inl e2, s2, w2) \<Longrightarrow>
     RedisSink_log s kw w = (Inr (), s2, log_output_error (''Redis: '' @ exn_str e2) w2)"
  by (simp add: RedisSink_log_def)

lemma log_retry_fails:
  "rpush_event s kw w = (Inl e1, w1) \<Longrightarrow> is_ConnectionError e1 \<Longrightarrow>
   RedisSink_connect s w1 = (Inr (), s2, w2) \<Longrightarrow> rpush_event s2 kw w2 = (Inl e3, w3) \<Longrightarrow>
     RedisSink_log s kw w =
       (Inr (), s2,
        log_output_error (''Redis: '' @ exn_str e3) (log_output_info (reconnected_message s2) w3))"
  by (simp add: RedisSink_log_def rpush_event_log_info)

lemma log_retry_ok:
  "rpush_event s kw w = (Inl e1, w1) \<Longrightarrow> is_ConnectionError e1 \<Longrightarrow>
   RedisSink_connect s w1 = (Inr (), s2, w2) \<Longrightarrow> rpush_event s2 kw w2 = (Inr n, w3) \<Longrightarrow>
     RedisSink_log s kw w = (Inr (), s2, log_output_info (reconnected_message s2) w3)"
  by (simp add: RedisSink_log_def rpush_event_log_info)

section \<open>The encoder writes one line\<close>

lemma char_of_not_nl: "(n::nat) < 200 \<Longrightarrow> 10 < n \<Longrightarrow> char_of n \<noteq> CHR 0x0A"
proof
  assume a: "n < 200" "10 < n" and b: "char_of n = CHR 0x0A"
  from b have "(of_char (char_of n :: char) :: nat) = of_char (CHR 0x0A)" by simp
  then have "n mod 256 = 10" by simp
  with a show False by simp
qed

lemma str_nat_no_nl: "CHR 0x0A \<notin> set (str_nat n)"
proof (induction n rule: str_nat.induct)
  case (1 n)
  have d: "char_of (48 + n mod 10) \<noteq> CHR 0x0A" by (rule char_of_not_nl) auto
  show ?case
  proof (cases "n < 10")
    case True
    have "char_of (48 + n) \<noteq> CHR 0x0A" using True by (intro char_of_not_nl) auto
    with True show ?thesis by (subst str_nat.simps) auto
  next
    case False
    with 1 d show ?thesis by (subst str_nat.simps) auto
  qed
qed

lemma str_int_no_nl: "CHR 0x0A \<notin> set (str_int i)"
  by (simp add: str_int_def str_nat_no_nl)

lemma hex_digit_no_nl:
  assumes "d < 16"
  shows "hex_digit d \<noteq> CHR 0x0A"
proof (cases "d < 10")
  case True
  have "char_of (48 + d) \<noteq> CHR 0x0A" using True by (intro char_of_not_nl) auto
  with True show ?thesis by (simp add: hex_digit_def)
next
  case False
  have "char_of (87 + d) \<noteq> CHR 0x0A" using assms by (intro char_of_not_nl) auto
  with False show ?thesis by (simp add: hex_digit_def)
qed

lemma escape_char_no_nl: "CHR 0x0A \<notin> set (escape_char c)"
proof -
  have "(of_char c :: nat) < 16 * 16" by simp
  then have a: "(of_char c :: nat) div 16 < 16" by (simp only: less_mult_imp_div_less)
  have b: "(of_char c :: nat) mod 16 < 16" by simp
  from hex_digit_no_nl [OF a] hex_digit_no_nl [OF b] show ?thesis
    by (auto simp: escape_char_def)
qed

lemma encode_str_no_nl: "CHR 0x0A \<notin> set (encode_str s)"
  by (auto simp: encode_str_def escape_char_no_nl)

lemma join_avoids:
  "c \<notin> set sep \<Longrightarrow> (\<And>x. x \<in> set xs \<Longrightarrow> c \<notin> set x) \<Longrightarrow> c \<notin> set (join sep xs)"
  by (induction sep xs rule: join.induct) auto

lemma encode_no_nl: "CHR 0x0A \<notin> set (encode v)"
proof (induction v rule: encode.induct)
  case (5 xs)
  have "CHR 0x0A \<notin> set (join '', '' (map encode xs))"
    by (rule join_avoids) (use 5 in auto)
  then show ?case by simp
next
  case (6 kvs)
  have "CHR 0x0A \<notin> set (join '', '' (map (\<lambda>kv. encode_str (fst kv) @ '': '' @ encode (snd kv)) kvs))"
    by (rule join_avoids) (use 6 in \<open>auto simp: encode_str_no_nl\<close>)
  then show ?case by simp
qed (simp_all add: str_int_no_nl encode_str_no_nl)

section \<open>Evaluating the examples\<close>

lemma char_of_nat_eq: "char_of (n::nat) = c \<longleftrightarrow> n mod 256 = of_char c"
  by (metis of_char_of char_of_char)

lemma example_event_json:
  \<open>json_dumps (PDict example_event) = Inr ''{"level": "error", "msg": "disk full"}''\<close>
  by (simp add: json_dumps_def example_event_def encode_str_def escape_char_def)

lemmas example_defs =
  example_sink_def example_client_def example_world_def fresh_world_def reset_world_def
  refused_world_def

lemmas call_defs =
  rpush_event_def client_rpush_def StrictRedis_def client_ping_def take_outcome_def
  next_outcome_def RedisSink_connect_def Let_def


section \<open>StdoutSink\<close>

text \<open>
  C9. For every event, when the serialization and the write succeed, \<open>StdoutSink.log\<close>
  raises nothing and makes one write: standard output grows by the JSON text of the event
  and a newline, and the JSON text has no newline in it, so that this is exactly one line.
\<close>

theorem StdoutSink_log_one_line:
  assumes "json_dumps (PDict kw) = Inr text" and "next_outcome w = Succeeds"
  shows "\<exists>w1. StdoutSink_log kw w = (Inr (), w1) \<and>
           stdout w1 = stdout w @ text @ [CHR 0x0A] \<and> CHR 0x0A \<notin> set text \<and>
           calls w1 = calls w @ [(Print_call text, Succeeds)]"
proof -
  from assms(1) have "text = encode (PDict kw)"
    by (simp add: json_dumps_def split: if_splits)
  then have "CHR 0x0A \<notin> set text" by (simp only: encode_no_nl not_False_eq_True)
  then show ?thesis
    using assms by (simp add: StdoutSink_log_def py_print_def take_outcome_def)
qed

theorem StdoutSink_log_one_line_witness:
  \<open>json_dumps (PDict example_event) = Inr ''{"level": "error", "msg": "disk full"}'' \<and>
   next_outcome fresh_world = Succeeds \<and>
   fst (StdoutSink_log example_event fresh_world) = Inr () \<and>
   stdout (snd (StdoutSink_log example_event fresh_world)) =
     ''{"level": "error", "msg": "disk full"}'' @ [CHR 0x0A]\<close>
proof -
  have n: "next_outcome fresh_world = Succeeds"
    by (simp add: next_outcome_def fresh_world_def)
  from StdoutSink_log_one_line [OF example_event_json n] show ?thesis
    using example_event_json n by (auto simp: fresh_world_def)
qed

section \<open>RedisSink: construction and \<open>_connect\<close>\<close>

text \<open>
  C3, as the code has it. \<open>_connect\<close> is not atomic: here the stored client is
  \<open>example_client\<close>, the new client is created and its ping raises \<open>ConnectionError\<close>;
  \<open>_connect\<close> raises, and the stored client is the new one, not the previous one.
\<close>

theorem RedisSink_connect_not_atomic:
  "fst (RedisSink_connect example_sink
          (example_world\<lparr>outcomes := [Succeeds, Raises (ConnectionError ''Connection refused'')]\<rparr>))
     = Inl (ConnectionError ''Connection refused'') \<and>
   conn (fst (snd (RedisSink_connect example_sink
          (example_world\<lparr>outcomes := [Succeeds, Raises (ConnectionError ''Connection refused'')]\<rparr>))))
     = Some (example_client\<lparr>client_id := 1\<rparr>) \<and>
   conn example_sink = Some example_client \<and>
   example_client\<lparr>client_id := 1\<rparr> \<noteq> example_client"
  by (simp add: call_defs example_defs)

text \<open>
  C3, amended. \<open>_connect\<close> stores the new client before it pings it. When the creation of
  the client raises, \<open>_connect\<close> raises that exception and the stored client is unchanged.
  When the client is created, it replaces the stored one whether or not the ping then
  succeeds; \<open>_connect\<close> raises what the ping raises and returns when the ping succeeds.
  Host, port and key are never changed.
\<close>

theorem RedisSink_connect_stores_first:
  assumes "RedisSink_connect s w = (r, s1, w1)"
  shows "host s1 = host s \<and> port s1 = port s \<and> key s1 = key s \<and>
     (\<forall>e. outcome_at w 0 = Raises e \<longrightarrow> r = Inl e \<and> conn s1 = conn s) \<and>
     (outcome_at w 0 = Succeeds \<longrightarrow>
        conn s1 = Some \<lparr>client_id = next_id w, client_host = host s, client_port = port s,
                         client_db = 0, client_socket_timeout = 30\<rparr> \<and>
        (\<forall>e. outcome_at w 1 = Raises e \<longrightarrow> r = Inl e) \<and>
        (outcome_at w 1 = Succeeds \<longrightarrow> r = Inr ()))"
  using connect_cases [OF assms] connect_world [OF assms, of INFO] by auto

theorem RedisSink_connect_stores_first_witness:
  "outcome_at (example_world\<lparr>outcomes := [Succeeds, Raises (IOError ''timed out'')]\<rparr>) 0 = Succeeds \<and>
   outcome_at (example_world\<lparr>outcomes := [Succeeds, Raises (IOError ''timed out'')]\<rparr>) 1
     = Raises (IOError ''timed out'') \<and>
   fst (RedisSink_connect example_sink
          (example_world\<lparr>outcomes := [Succeeds, Raises (IOError ''timed out'')]\<rparr>))
     = Inl (IOError ''timed out'') \<and>
   conn (fst (snd (RedisSink_connect example_sink
          (example_world\<lparr>outcomes := [Succeeds, Raises (IOError ''timed out'')]\<rparr>))))
     = Some \<lparr>client_id = 1, client_host = ''localhost'', client_port = 6379, client_db = 0,
              client_socket_timeout = 30\<rparr>"
proof -
  let ?w = "example_world\<lparr>outcomes := [Succeeds, Raises (IOError ''timed out'')]\<rparr>"
  let ?x = "RedisSink_connect example_sink ?w"
  have h: "?x = (fst ?x, fst (snd ?x), snd (snd ?x))" by simp
  have a: "outcome_at ?w 0 = Succeeds" by (simp add: outcome_at_def)
  have b: "outcome_at ?w 1 = Raises (IOError ''timed out'')" by (simp add: outcome_at_def)
  have c: "next_id ?w = 1 \<and> host example_sink = ''localhost'' \<and> port example_sink = 6379"
    by (simp add: example_defs)
  from RedisSink_connect_stores_first [OF h] a b c show ?thesis by simp
qed



section \<open>RedisSink.log\<close>

text \<open>
  C4. For every event, when the first append succeeds, \<open>log\<close> returns with the sink as it
  was and has made one external call: the append of the JSON text of the event to the list
  of the configured key, through the stored client. No client is created, nothing is
  appended a second time and no record is logged.
\<close>

theorem RedisSink_log_healthy:
  assumes "fst (rpush_event s kw w) = Inr n"
  shows "\<exists>c text w1. conn s = Some c \<and> json_dumps (PDict kw) = Inr text \<and>
           RedisSink_log s kw w = (Inr (), s, w1) \<and>
           calls w1 = calls w @ [(Rpush_call c (key s) text, Succeeds)] \<and>
           redis_lists w1 (client_host c, client_port c, client_db c) (key s) =
             redis_lists w (client_host c, client_port c, client_db c) (key s) @ [text] \<and>
           log_records w1 = log_records w"
proof -
  obtain w1 where a: "rpush_event s kw w = (Inr n, w1)"
    using assms by (cases "rpush_event s kw w") simp
  from rpush_event_ok [OF a] log_first_ok [OF a] show ?thesis by blast
qed

theorem RedisSink_log_healthy_witness:
  \<open>fst (rpush_event example_sink example_event example_world) = Inr 1 \<and>
   (\<exists>w1. RedisSink_log example_sink example_event example_world = (Inr (), example_sink, w1) \<and>
      calls w1 = calls example_world @
        [(Rpush_call example_client ''events'' ''{"level": "error", "msg": "disk full"}'', Succeeds)])\<close>
proof -
  have h: "fst (rpush_event example_sink example_event example_world) = Inr 1"
    by (simp add: call_defs example_defs example_event_json)
  from RedisSink_log_healthy [OF h] example_event_json show ?thesis
    using h by (auto simp: example_sink_def)
qed


text \<open>
  C2, as the code has it. The event cannot be serialized, so the first attempt fails with
  \<open>TypeError\<close>: \<open>log\<close> raises it to the caller and logs nothing.
\<close>

theorem RedisSink_log_raises_TypeError:
  "RedisSink_log example_sink [(''msg'', PObject ''set'')] example_world =
     (Inl (TypeError ''Object is not JSON serializable''), example_sink, example_world)"
  by (simp add: RedisSink_log_def rpush_event_def json_dumps_def example_sink_def)

text \<open>
  C2, amended. When the first attempt fails with an error that is not a connection error,
  \<open>log\<close> raises that error to the caller: no client is created, nothing is appended and
  no record is logged.
\<close>

theorem RedisSink_log_propagates:
  assumes "rpush_event s kw w = (Inl e, w1)" and "\<not> is_ConnectionError e"
  shows "RedisSink_log s kw w = (Inl e, s, w1) \<and> connects w1 = connects w \<and>
         appends w1 = appends w \<and> log_records w1 = log_records w \<and>
         redis_lists w1 = redis_lists w"
  using log_first_other [OF assms] rpush_event_counts_fail [OF assms(1), of INFO] by simp

theorem RedisSink_log_propagates_witness:
  "rpush_event example_sink example_event
       (example_world\<lparr>outcomes := [Raises (ResponseError ''OOM command not allowed'')]\<rparr>)
     = (Inl (ResponseError ''OOM command not allowed''),
        example_world\<lparr>outcomes := [],
          calls := calls example_world @
            [(Rpush_call example_client ''events'' (encode (PDict example_event)),
              Raises (ResponseError ''OOM command not allowed''))]\<rparr>) \<and>
   fst (RedisSink_log example_sink example_event
       (example_world\<lparr>outcomes := [Raises (ResponseError ''OOM command not allowed'')]\<rparr>))
     = Inl (ResponseError ''OOM command not allowed'')"
proof -
  let ?w = "example_world\<lparr>outcomes := [Raises (ResponseError ''OOM command not allowed'')]\<rparr>"
  have h: "rpush_event example_sink example_event ?w
     = (Inl (ResponseError ''OOM command not allowed''),
        example_world\<lparr>outcomes := [],
          calls := calls example_world @
            [(Rpush_call example_client ''events'' (encode (PDict example_event)),
              Raises (ResponseError ''OOM command not allowed''))]\<rparr>)"
    by (simp add: rpush_event_def client_rpush_def take_outcome_def next_outcome_def
        json_dumps_def example_sink_def example_event_def)
  have n: "\<not> is_ConnectionError (ResponseError ''OOM command not allowed'')" by simp
  from RedisSink_log_propagates [OF h n] h show ?thesis by simp
qed

text \<open>
  C5, as the code has it. The first append fails with a connection error and \<open>_connect\<close>
  succeeds, but the retried append fails too: \<open>log\<close> has made no successful append.
\<close>

theorem RedisSink_log_retry_fails:
  "fst (rpush_event example_sink example_event
         (example_world\<lparr>outcomes := [Raises (ConnectionError ''Connection reset by peer''),
            Succeeds, Succeeds, Raises (ConnectionError ''Connection reset by peer'')]\<rparr>))
     = Inl (ConnectionError ''Connection reset by peer'') \<and>
   fst (RedisSink_connect example_sink (snd (rpush_event example_sink example_event
         (example_world\<lparr>outcomes := [Raises (ConnectionError ''Connection reset by peer''),
            Succeeds, Succeeds, Raises (ConnectionError ''Connection reset by peer'')]\<rparr>))))
     = Inr () \<and>
   appends (snd (snd (RedisSink_log example_sink example_event
         (example_world\<lparr>outcomes := [Raises (ConnectionError ''Connection reset by peer''),
            Succeeds, Succeeds, Raises (ConnectionError ''Connection reset by peer'')]\<rparr>))))
     = appends example_world"
  by (simp add: call_defs example_defs RedisSink_log_def json_dumps_def example_event_def
      appends_def log_output_info_def log_output_error_def)

text \<open>
  C5, amended. When the first append fails with a connection error, \<open>_connect\<close> succeeds
  and the retried append succeeds, \<open>log\<close> returns without raising and has made exactly
  four external calls: the failed append through the stored client, the creation of the new
  client on the sink's host and port, its ping, and the append of the JSON text of the
  event to the list of the configured key through the new client, which the sink now
  stores. That last call is the one successful append, and the list grows by the text. One
  record is logged, the line "reconnected" at level info.
\<close>

theorem RedisSink_log_reconnected:
  assumes "rpush_event s kw w = (Inl e1, w1)" and "is_ConnectionError e1"
      and "RedisSink_connect s w1 = (Inr (), s2, w2)"
      and "fst (rpush_event s2 kw w2) = Inr n"
  shows "\<exists>w3 c c2 text. RedisSink_log s kw w = (Inr (), s2, w3) \<and>
           appends w3 = Suc (appends w) \<and> ok_rpush (last (calls w3)) \<and>
           rpush_attempts w3 = rpush_attempts w + 2 \<and>
           connects w3 = Suc (connects w) \<and>
           log_records w3 = log_records w @ [(''output'', INFO, reconnected_message s)] \<and>
           conn s = Some c \<and> json_dumps (PDict kw) = Inr text \<and>
           c2 = \<lparr>client_id = next_id w, client_host = host s, client_port = port s,
                  client_db = 0, client_socket_timeout = 30\<rparr> \<and>
           s2 = s\<lparr>conn := Some c2\<rparr> \<and>
           calls w3 = calls w @
             [(Rpush_call c (key s) text, Raises e1),
              (StrictRedis_call (host s) (port s), Succeeds),
              (Ping_call c2, Succeeds),
              (Rpush_call c2 (key s) text, Succeeds)] \<and>
           redis_lists w3 (host s, port s, 0) (key s) =
             redis_lists w (host s, port s, 0) (key s) @ [text]"
proof -
  obtain w3 where r: "rpush_event s2 kw w2 = (Inr n, w3)"
    using assms(4) by (cases "rpush_event s2 kw w2") simp
  have m: "reconnected_message s2 = reconnected_message s"
    using connect_world [OF assms(3), of INFO] by (simp add: reconnected_message_def)
  note l = log_retry_ok [OF assms(1,2,3) r]
  have c1: "appends w1 = appends w \<and> rpush_attempts w1 = Suc (rpush_attempts w) \<and>
        connects w1 = connects w \<and> log_records w1 = log_records w \<and>
        redis_lists w1 = redis_lists w"
    using rpush_event_counts_fail [OF assms(1), of INFO] assms(2) by simp
  note c2 = connect_world [OF assms(3), of INFO]
  note c3 = rpush_event_counts_ok [OF r, of INFO]
  from rpush_event_conn_fail [OF assms(1,2)] obtain c jtext where
    f: "conn s = Some c" "json_dumps (PDict kw) = Inr jtext"
       "calls w1 = calls w @ [(Rpush_call c (key s) jtext, Raises e1)]" "next_id w1 = next_id w"
    by blast
  let ?c2 = "\<lparr>client_id = next_id w, client_host = host s, client_port = port s,
                  client_db = 0, client_socket_timeout = 30\<rparr>"
  from connect_ok_trace [OF assms(3)] f(4) have
    t: "s2 = s\<lparr>conn := Some ?c2\<rparr>"
       "calls w2 = calls w1 @ [(StrictRedis_call (host s) (port s), Succeeds), (Ping_call ?c2, Succeeds)]"
    by simp_all
  from rpush_event_ok [OF r] t(1) f(2) have
    u: "calls w3 = calls w2 @ [(Rpush_call ?c2 (key s) jtext, Succeeds)]"
       "redis_lists w3 (host s, port s, 0) (key s) = redis_lists w2 (host s, port s, 0) (key s) @ [jtext]"
    by auto
  have k: "ok_rpush (last (calls w3))" using u(1) by simp
  have tr: "calls w3 = calls w @
             [(Rpush_call c (key s) jtext, Raises e1),
              (StrictRedis_call (host s) (port s), Succeeds),
              (Ping_call ?c2, Succeeds),
              (Rpush_call ?c2 (key s) jtext, Succeeds)]"
    using f(3) t(2) u(1) by simp
  have rl: "redis_lists w3 (host s, port s, 0) (key s) =
             redis_lists w (host s, port s, 0) (key s) @ [jtext]"
    using u(2) c1 c2 by simp
  have cnt: "appends w3 = Suc (appends w) \<and> rpush_attempts w3 = rpush_attempts w + 2 \<and>
      connects w3 = Suc (connects w) \<and> log_records w3 = log_records w"
    using c1 c2 c3 by simp
  let ?w = "log_output_info (reconnected_message s2) w3"
  have "RedisSink_log s kw w = (Inr (), s2, ?w) \<and>
           appends ?w = Suc (appends w) \<and> ok_rpush (last (calls ?w)) \<and>
           rpush_attempts ?w = rpush_attempts w + 2 \<and>
           connects ?w = Suc (connects w) \<and>
           log_records ?w = log_records w @ [(''output'', INFO, reconnected_message s)] \<and>
           conn s = Some c \<and> json_dumps (PDict kw) = Inr jtext \<and>
           ?c2 = ?c2 \<and>
           s2 = s\<lparr>conn := Some ?c2\<rparr> \<and>
           calls ?w = calls w @
             [(Rpush_call c (key s) jtext, Raises e1),
              (StrictRedis_call (host s) (port s), Succeeds),
              (Ping_call ?c2, Succeeds),
              (Rpush_call ?c2 (key s) jtext, Succeeds)] \<and>
           redis_lists ?w (host s, port s, 0) (key s) =
             redis_lists w (host s, port s, 0) (key s) @ [jtext]"
    using l m k tr rl cnt f(1,2) t(1) by (simp add: log_output_info_world)
  then show ?thesis by blast
qed

theorem RedisSink_log_reconnected_witness:
  \<open>fst (rpush_event example_sink example_event reset_world)
     = Inl (ConnectionError ''Connection reset by peer'') \<and>
   fst (RedisSink_connect example_sink (snd (rpush_event example_sink example_event reset_world)))
     = Inr () \<and>
   fst (RedisSink_log example_sink example_event reset_world) = Inr () \<and>
   appends (snd (snd (RedisSink_log example_sink example_event reset_world)))
     = Suc (appends reset_world) \<and>
   log_records (snd (snd (RedisSink_log example_sink example_event reset_world)))
     = [(''output'', INFO, ''Redis: reconnected to server localhost:6379'')] \<and>
   calls (snd (snd (RedisSink_log example_sink example_event reset_world)))
     = calls reset_world @
       [(Rpush_call example_client ''events'' ''{"level": "error", "msg": "disk full"}'',
         Raises (ConnectionError ''Connection reset by peer'')),
        (StrictRedis_call ''localhost'' 6379, Succeeds),
        (Ping_call (example_client\<lparr>client_id := 1\<rparr>), Succeeds),
        (Rpush_call (example_client\<lparr>client_id := 1\<rparr>) ''events''
           ''{"level": "error", "msg": "disk full"}'', Succeeds)]\<close>
proof -
  let ?a = "rpush_event example_sink example_event reset_world"
  let ?c = "RedisSink_connect example_sink (snd ?a)"
  have fa: "fst ?a = Inl (ConnectionError ''Connection reset by peer'')"
    by (simp add: call_defs example_defs example_event_json)
  then have h1: "?a = (Inl (ConnectionError ''Connection reset by peer''), snd ?a)"
    by (simp add: prod_eq_iff)
  have h2: "is_ConnectionError (ConnectionError ''Connection reset by peer'')" by simp
  have fc: "fst ?c = Inr ()"
    by (simp add: call_defs example_defs example_event_json)
  then have h3: "?c = (Inr (), fst (snd ?c), snd (snd ?c))"
    by (simp add: prod_eq_iff)
  have h4: "fst (rpush_event (fst (snd ?c)) example_event (snd (snd ?c))) = Inr 1"
    by (simp add: call_defs example_defs example_event_json)
  have m: "reconnected_message example_sink = ''Redis: reconnected to server localhost:6379''"
    by (simp add: reconnected_message_def example_sink_def str_int_def str_nat.simps
        char_of_nat_eq)
  have l: "log_records reset_world = [] \<and> next_id reset_world = 1 \<and>
      conn example_sink = Some example_client \<and> host example_sink = ''localhost'' \<and>
      port example_sink = 6379 \<and> key example_sink = ''events'' \<and>
      example_client\<lparr>client_id := 1\<rparr> =
        \<lparr>client_id = 1, client_host = ''localhost'', client_port = 6379, client_db = 0,
         client_socket_timeout = 30\<rparr>"
    by (simp add: example_defs)
  from RedisSink_log_reconnected [OF h1 h2 h3 h4] fa fc m l example_event_json show ?thesis
    by auto
qed

text \<open>
  C6. When the first append fails with a connection error and then \<open>_connect\<close> fails, or
  \<open>_connect\<close> succeeds and the retried append fails, \<open>log\<close> returns without raising. It
  has made no successful append and the lists are as they were; it has logged exactly one
  record at level error, the last one, which carries the failure; it has made at most two
  append attempts and created one client.
\<close>

theorem RedisSink_log_double_failure:
  assumes "rpush_event s kw w = (Inl e1, w1)" and "is_ConnectionError e1"
      and "fst (RedisSink_connect s w1) = Inl e \<or>
           (\<exists>s2 w2. RedisSink_connect s w1 = (Inr (), s2, w2) \<and> fst (rpush_event s2 kw w2) = Inl e)"
  shows "\<exists>s3 w3. RedisSink_log s kw w = (Inr (), s3, w3) \<and>
           appends w3 = appends w \<and> redis_lists w3 = redis_lists w \<and>
           records_at ERROR w3 = Suc (records_at ERROR w) \<and>
           last (log_records w3) = (''output'', ERROR, ''Redis: '' @ exn_str e) \<and>
           rpush_attempts w3 \<le> rpush_attempts w + 2 \<and>
           connects w3 = Suc (connects w)"
proof -
  have c1: "appends w1 = appends w \<and> rpush_attempts w1 = Suc (rpush_attempts w) \<and>
        connects w1 = connects w \<and> records_at ERROR w1 = records_at ERROR w \<and>
        redis_lists w1 = redis_lists w"
    using rpush_event_counts_fail [OF assms(1), of ERROR] assms(2) by simp
  from assms(3) show ?thesis
  proof
    assume "fst (RedisSink_connect s w1) = Inl e"
    then obtain s2 w2 where c: "RedisSink_connect s w1 = (Inl e, s2, w2)"
      by (cases "RedisSink_connect s w1") auto
    from log_connect_fails [OF assms(1,2) c] c1 connect_world [OF c, of ERROR] show ?thesis
      by (simp add: log_output_error_world)
  next
    assume "\<exists>s2 w2. RedisSink_connect s w1 = (Inr (), s2, w2) \<and> fst (rpush_event s2 kw w2) = Inl e"
    then obtain s2 w2 where c: "RedisSink_connect s w1 = (Inr (), s2, w2)"
      and r0: "fst (rpush_event s2 kw w2) = Inl e"
      by blast
    obtain w3 where r: "rpush_event s2 kw w2 = (Inl e, w3)"
      using r0 by (cases "rpush_event s2 kw w2") simp
    from log_retry_fails [OF assms(1,2) c r] c1 connect_world [OF c, of ERROR]
      rpush_event_counts_fail [OF r, of ERROR]
    show ?thesis
      by (simp add: log_output_error_world log_output_info_world)
  qed
qed

theorem RedisSink_log_double_failure_witness:
  "fst (rpush_event example_sink example_event refused_world)
     = Inl (ConnectionError ''Connection reset by peer'') \<and>
   fst (RedisSink_connect example_sink (snd (rpush_event example_sink example_event refused_world)))
     = Inl (ConnectionError ''Connection refused'') \<and>
   fst (RedisSink_log example_sink example_event refused_world) = Inr () \<and>
   appends (snd (snd (RedisSink_log example_sink example_event refused_world)))
     = appends refused_world \<and>
   last (log_records (snd (snd (RedisSink_log example_sink example_event refused_world))))
     = (''output'', ERROR, ''Redis: Connection refused'')"
proof -
  let ?a = "rpush_event example_sink example_event refused_world"
  let ?c = "RedisSink_connect example_sink (snd ?a)"
  have fa: "fst ?a = Inl (ConnectionError ''Connection reset by peer'')"
    by (simp add: call_defs example_defs example_event_json)
  then have h1: "?a = (Inl (ConnectionError ''Connection reset by peer''), snd ?a)"
    by (simp add: prod_eq_iff)
  have h2: "is_ConnectionError (ConnectionError ''Connection reset by peer'')" by simp
  have fc: "fst ?c = Inl (ConnectionError ''Connection refused'')"
    by (simp add: call_defs example_defs example_event_json)
  then have h3: "fst ?c = Inl (ConnectionError ''Connection refused'') \<or>
      (\<exists>s2 w2. ?c = (Inr (), s2, w2) \<and>
         fst (rpush_event s2 example_event w2) = Inl (ConnectionError ''Connection refused''))"
    by simp
  from RedisSink_log_double_failure [OF h1 h2 h3] fa fc show ?thesis
    by auto
qed

text \<open>
  C1, as the code has it. The first append is refused by the server with a
  \<open>ResponseError\<close>, which is not a connection error: \<open>log\<close> raises it to the caller.
\<close>

theorem RedisSink_log_raises_ResponseError:
  "fst (RedisSink_log example_sink example_event
         (example_world\<lparr>outcomes := [Raises (ResponseError ''WRONGTYPE Operation against a key holding the wrong kind of value'')]\<rparr>))
     = Inl (ResponseError ''WRONGTYPE Operation against a key holding the wrong kind of value'')"
  by (simp add: RedisSink_log_def call_defs example_defs example_event_json)

text \<open>
  C1, amended. For every event, when the first attempt either succeeds or fails with a
  connection error, \<open>log\<close> raises nothing, whatever fails afterwards, in \<open>_connect\<close> or
  in the retried append, with a connection error or with any other error. It ends either
  with one more successful append and no error record, or with no append and exactly one
  more error record: the event is dropped and the error logged.
\<close>

theorem RedisSink_log_no_raise:
  assumes "\<forall>e. fst (rpush_event s kw w) = Inl e \<longrightarrow> is_ConnectionError e"
  shows "\<exists>s3 w3. RedisSink_log s kw w = (Inr (), s3, w3) \<and>
           (appends w3 = Suc (appends w) \<and> records_at ERROR w3 = records_at ERROR w \<or>
            appends w3 = appends w \<and> records_at ERROR w3 = Suc (records_at ERROR w))"
proof (cases "rpush_event s kw w")
  case (Pair r w1)
  show ?thesis
  proof (cases r)
    case (Inr n)
    with Pair have a: "rpush_event s kw w = (Inr n, w1)" by simp
    from log_first_ok [OF a] rpush_event_counts_ok [OF a, of ERROR] show ?thesis by simp
  next
    case (Inl e1)
    with Pair have a: "rpush_event s kw w = (Inl e1, w1)" by simp
    with assms have ce: "is_ConnectionError e1" by simp
    note c1 = rpush_event_counts_fail [OF a, of ERROR]
    obtain r2 s2 w2 where c: "RedisSink_connect s w1 = (r2, s2, w2)"
      by (cases "RedisSink_connect s w1") auto
    note c2 = connect_world [OF c, of ERROR]
    show ?thesis
    proof (cases r2)
      case (Inl e2)
      with c have c': "RedisSink_connect s w1 = (Inl e2, s2, w2)" by simp
      from log_connect_fails [OF a ce c'] c1 c2 show ?thesis
        by (simp add: log_output_error_world)
    next
      case (Inr u)
      with c have c': "RedisSink_connect s w1 = (Inr (), s2, w2)" by simp
      obtain r3 w3 where t: "rpush_event s2 kw w2 = (r3, w3)"
        by (cases "rpush_event s2 kw w2") auto
      show ?thesis
      proof (cases r3)
        case (Inl e3)
        with t have t': "rpush_event s2 kw w2 = (Inl e3, w3)" by simp
        from log_retry_fails [OF a ce c' t'] c1 c2 rpush_event_counts_fail [OF t', of ERROR]
        show ?thesis
          by (simp add: log_output_error_world log_output_info_world)
      next
        case (Inr n)
        with t have t': "rpush_event s2 kw w2 = (Inr n, w3)" by simp
        from log_retry_ok [OF a ce c' t'] c1 c2 rpush_event_counts_ok [OF t', of ERROR]
        show ?thesis
          by (simp add: log_output_info_world)
      qed
    qed
  qed
qed

theorem RedisSink_log_no_raise_witness:
  "fst (rpush_event example_sink example_event refused_world)
     = Inl (ConnectionError ''Connection reset by peer'') \<and>
   is_ConnectionError (ConnectionError ''Connection reset by peer'') \<and>
   fst (RedisSink_log example_sink example_event refused_world) = Inr ()"
proof -
  have fa: "fst (rpush_event example_sink example_event refused_world)
      = Inl (ConnectionError ''Connection reset by peer'')"
    by (simp add: call_defs example_defs example_event_json)
  then have h: "\<forall>e. fst (rpush_event example_sink example_event refused_world) = Inl e
      \<longrightarrow> is_ConnectionError e"
    by simp
  from RedisSink_log_no_raise [OF h] fa show ?thesis by auto
qed

text \<open>
  C7, as the code has it. The sink is built with host "localhost", port 6379 and key
  "events" in a world where every call succeeds and every list is empty; after
  \<open>log(level="error", msg="disk full")\<close> the list "events" holds one element, and its
  text has a space after the colons and after the comma: it is not the compact text.
\<close>

theorem example_log_not_compact:
  \<open>RedisSink_init ''localhost'' ''events'' (Some 6379) fresh_world = (Inr example_sink, example_world) \<and>
   redis_lists (snd (snd (RedisSink_log example_sink example_event example_world)))
       (''localhost'', 6379, 0) ''events'' = [''{"level": "error", "msg": "disk full"}''] \<and>
   ''{"level": "error", "msg": "disk full"}'' \<noteq> ''{"level":"error","msg":"disk full"}''\<close>
  by (simp add: RedisSink_init_def RedisSink_log_def call_defs example_defs example_event_json)

text \<open>
  C7, amended. In a world where every call succeeds, building the sink with host
  "localhost", port 6379 and key "events" and calling \<open>log(level="error", msg="disk full")\<close>
  makes one successful append: the list "events" of that server grows by one element at its
  end, the text \<open>{"level": "error", "msg": "disk full"}\<close> that \<open>json.dumps\<close> writes with
  its default separators.
\<close>

theorem example_log_appends:
  assumes "outcomes w = []"
  shows \<open>\<exists>s w1 w2. RedisSink_init ''localhost'' ''events'' (Some 6379) w = (Inr s, w1) \<and>
           RedisSink_log s example_event w1 = (Inr (), s, w2) \<and>
           redis_lists w2 (''localhost'', 6379, 0) ''events'' =
             redis_lists w (''localhost'', 6379, 0) ''events'' @
               [''{"level": "error", "msg": "disk full"}''] \<and>
           appends w2 = Suc (appends w)\<close>
  using assms
  by (simp add: RedisSink_init_def RedisSink_log_def call_defs example_event_json appends_def)

theorem example_log_appends_witness:
  \<open>outcomes fresh_world = [] \<and>
   (\<exists>s w1 w2. RedisSink_init ''localhost'' ''events'' (Some 6379) fresh_world = (Inr s, w1) \<and>
      RedisSink_log s example_event w1 = (Inr (), s, w2) \<and>
      redis_lists w2 (''localhost'', 6379, 0) ''events'' =
        [''{"level": "error", "msg": "disk full"}''])\<close>
proof -
  have h: "outcomes fresh_world = []" by (simp add: fresh_world_def)
  have e: "redis_lists fresh_world (''localhost'', 6379, 0) ''events'' = []"
    by (simp add: fresh_world_def)
  from example_log_appends [OF h] e h show ?thesis by auto
qed

section \<open>read_config\<close>

lemma take_outcome_files: "files (snd (take_outcome c w)) = files w"
  by (simp add: take_outcome_def)

lemma take_outcome_fst: "fst (take_outcome c w) = outcome_at w 0"
  by (simp add: take_outcome_def outcome_at_0)

lemma take_outcome_records: "log_records (snd (take_outcome c w)) = log_records w"
  by (simp add: take_outcome_def)

lemma py_open_cases:
  "py_open f w =
     (case files w f of
        None \<Rightarrow> (Inl (IOError ''No such file or directory''), w)
      | Some t \<Rightarrow>
          (case outcome_at w 0 of
             Raises e \<Rightarrow> (Inl e, snd (take_outcome (Open_call f) w))
           | Succeeds \<Rightarrow> (Inr f, snd (take_outcome (Open_call f) w))))"
  by (simp add: py_open_def take_outcome_def outcome_at_0 split: option.splits outcome.splits)

lemma file_read_cases:
  "file_read f w =
     (case outcome_at w 0 of
        Raises e \<Rightarrow> (Inl e, snd (take_outcome (Read_call f) w))
      | Succeeds \<Rightarrow>
          (case files w f of
             None \<Rightarrow> (Inl (IOError ''No such file or directory''), snd (take_outcome (Read_call f) w))
           | Some t \<Rightarrow> (Inr t, snd (take_outcome (Read_call f) w))))"
  by (simp add: file_read_def take_outcome_def outcome_at_0 split: option.splits outcome.splits)

lemma read_config_read:
  assumes "files w f = Some t" and "outcome_at w 0 = Succeeds"
  shows "read_config loads f w =
     (case outcome_at w 1 of
        Raises e \<Rightarrow>
          except_ValueError e (snd (take_outcome (Read_call f) (snd (take_outcome (Open_call f) w))))
      | Succeeds \<Rightarrow>
          (case loads t of
             Inl e \<Rightarrow>
               except_ValueError e (snd (take_outcome (Read_call f) (snd (take_outcome (Open_call f) w))))
           | Inr cfg \<Rightarrow>
               (case getitem cfg ''input'' of
                  Inl e \<Rightarrow> (Inl (Raise e), snd (take_outcome (Read_call f) (snd (take_outcome (Open_call f) w))))
                | Inr i \<Rightarrow>
                    (case getitem cfg ''output'' of
                       Inl e \<Rightarrow> (Inl (Raise e), snd (take_outcome (Read_call f) (snd (take_outcome (Open_call f) w))))
                     | Inr out \<Rightarrow> (Inr (i, out), snd (take_outcome (Read_call f) (snd (take_outcome (Open_call f) w))))))))"
  using assms
  by (simp add: read_config_def py_open_cases file_read_cases outcome_at_take take_outcome_files
      split: outcome.splits)

lemma read_config_no_read:
  assumes "files w f = None \<or> outcome_at w 0 \<noteq> Succeeds"
  shows "\<exists>e. fst (read_config loads f w) = Inl (Raise e)"
  using assms
  by (auto simp: read_config_def py_open_cases split: option.splits outcome.splits)

lemma getitem_not_dict: "(\<forall>kvs. v \<noteq> PDict kvs) \<Longrightarrow> getitem v k = Inl (TypeError ''indices must be integers'')"
  by (cases v) simp_all

text \<open>
  C10, as the code has it. The file holds a JSON object with no \<open>output\<close>, but
  \<open>f.read()\<close> raises \<open>UnicodeDecodeError\<close>, a \<open>ValueError\<close>, inside the \<open>try\<close>
  block: \<open>read_config\<close> ends the process with status -1. And a file that holds the JSON
  list \<open>[]\<close> has neither key, yet the subscript raises \<open>TypeError\<close>, not
  \<open>KeyError\<close>.
\<close>

theorem read_config_exits_on_valid_json:
  "files config_world ''logstash.json'' = Some example_config \<and>
   example_loads example_config = Inr (PDict [(''input'', PList [])]) \<and>
   fst (read_config example_loads ''logstash.json''
          (config_world\<lparr>outcomes := [Succeeds,
             Raises (UnicodeDecodeError ''utf-8 codec cannot decode byte 0xe9'')]\<rparr>))
     = Inl (SystemExit (- 1)) \<and>
   files config_world ''list.json'' = Some ''[]'' \<and>
   example_loads ''[]'' = Inr (PList []) \<and>
   fst (read_config example_loads ''list.json'' config_world)
     = Inl (Raise (TypeError ''indices must be integers''))"
  by (simp add: read_config_def py_open_def file_read_def take_outcome_def next_outcome_def
      except_ValueError_def config_world_def fresh_world_def example_loads_def example_config_def)

text \<open>
  C10, amended. When the file is opened and read without error and its text parses to a
  JSON object that lacks the key \<open>input\<close> or the key \<open>output\<close>, \<open>read_config\<close> raises
  \<open>KeyError\<close>, for \<open>input\<close> when it is missing and for \<open>output\<close> otherwise; the
  error reaches the caller, the process is not ended and nothing is logged. When the text
  parses to a value that is not an object, the subscript raises \<open>TypeError\<close>.
  \<open>read_config\<close> ends the process only with status -1, and exactly when the file is
  opened and then the read or the parser raises a \<open>ValueError\<close>.
\<close>

theorem read_config_missing_key:
  "(files w f = Some text \<and> outcome_at w 0 = Succeeds \<and> outcome_at w 1 = Succeeds \<and>
      loads text = Inr (PDict kvs) \<and>
      (''input'' \<notin> fst ` set kvs \<or> ''output'' \<notin> fst ` set kvs) \<longrightarrow>
      (\<exists>k w1. read_config loads f w = (Inl (Raise (KeyError k)), w1) \<and>
           k = (if ''input'' \<in> fst ` set kvs then ''output'' else ''input'') \<and>
           k \<notin> fst ` set kvs \<and> log_records w1 = log_records w)) \<and>
   (files w f = Some text \<and> outcome_at w 0 = Succeeds \<and> outcome_at w 1 = Succeeds \<and>
      loads text = Inr v \<and> (\<forall>kvs. v \<noteq> PDict kvs) \<longrightarrow>
      fst (read_config loads f w) = Inl (Raise (TypeError ''indices must be integers''))) \<and>
   (\<forall>n. fst (read_config loads f w) = Inl (SystemExit n) \<longrightarrow> n = - 1) \<and>
   (fst (read_config loads f w) = Inl (SystemExit (- 1)) \<longleftrightarrow>
      (\<exists>t e. files w f = Some t \<and> outcome_at w 0 = Succeeds \<and> is_ValueError e \<and>
         (outcome_at w 1 = Raises e \<or> outcome_at w 1 = Succeeds \<and> loads t = Inl e)))"
proof (intro conjI)
  show "files w f = Some text \<and> outcome_at w 0 = Succeeds \<and> outcome_at w 1 = Succeeds \<and>
      loads text = Inr (PDict kvs) \<and>
      (''input'' \<notin> fst ` set kvs \<or> ''output'' \<notin> fst ` set kvs) \<longrightarrow>
      (\<exists>k w1. read_config loads f w = (Inl (Raise (KeyError k)), w1) \<and>
           k = (if ''input'' \<in> fst ` set kvs then ''output'' else ''input'') \<and>
           k \<notin> fst ` set kvs \<and> log_records w1 = log_records w)"
  proof (rule impI)
    assume a: "files w f = Some text \<and> outcome_at w 0 = Succeeds \<and> outcome_at w 1 = Succeeds \<and>
      loads text = Inr (PDict kvs) \<and>
      (''input'' \<notin> fst ` set kvs \<or> ''output'' \<notin> fst ` set kvs)"
    then have rc: "read_config loads f w =
        (case getitem (PDict kvs) ''input'' of
           Inl e \<Rightarrow> (Inl (Raise e), snd (take_outcome (Read_call f) (snd (take_outcome (Open_call f) w))))
         | Inr i \<Rightarrow>
             (case getitem (PDict kvs) ''output'' of
                Inl e \<Rightarrow> (Inl (Raise e), snd (take_outcome (Read_call f) (snd (take_outcome (Open_call f) w))))
              | Inr out \<Rightarrow> (Inr (i, out), snd (take_outcome (Read_call f) (snd (take_outcome (Open_call f) w))))))"
      by (simp add: read_config_read [of w f "text"])
    show "\<exists>k w1. read_config loads f w = (Inl (Raise (KeyError k)), w1) \<and>
           k = (if ''input'' \<in> fst ` set kvs then ''output'' else ''input'') \<and>
           k \<notin> fst ` set kvs \<and> log_records w1 = log_records w"
    proof (cases "map_of kvs ''input''")
      case None
      then have "''input'' \<notin> fst ` set kvs" by (simp add: map_of_eq_None_iff)
      with None rc show ?thesis by (simp add: take_outcome_records)
    next
      case (Some i)
      then have i: "''input'' \<in> fst ` set kvs" by (metis map_of_eq_None_iff option.distinct(1))
      with a have o: "''output'' \<notin> fst ` set kvs" by blast
      then have "map_of kvs ''output'' = None" by (simp add: map_of_eq_None_iff)
      with Some i o rc show ?thesis by (simp add: take_outcome_records)
    qed
  qed
next
  show "files w f = Some text \<and> outcome_at w 0 = Succeeds \<and> outcome_at w 1 = Succeeds \<and>
      loads text = Inr v \<and> (\<forall>kvs. v \<noteq> PDict kvs) \<longrightarrow>
      fst (read_config loads f w) = Inl (Raise (TypeError ''indices must be integers''))"
    by (auto simp: read_config_read [of w f "text"] getitem_not_dict)
next
  show "\<forall>n. fst (read_config loads f w) = Inl (SystemExit n) \<longrightarrow> n = - 1"
    by (auto simp: read_config_def except_ValueError_def
        split: prod.splits option.splits sum.splits if_splits)
next
  show "fst (read_config loads f w) = Inl (SystemExit (- 1)) \<longleftrightarrow>
      (\<exists>t e. files w f = Some t \<and> outcome_at w 0 = Succeeds \<and> is_ValueError e \<and>
         (outcome_at w 1 = Raises e \<or> outcome_at w 1 = Succeeds \<and> loads t = Inl e))"
  proof (cases "files w f = None \<or> outcome_at w 0 \<noteq> Succeeds")
    case True
    with read_config_no_read [OF True, of loads] show ?thesis by auto
  next
    case False
    then obtain t where t: "files w f = Some t" and o: "outcome_at w 0 = Succeeds" by auto
    show ?thesis
      by (auto simp: read_config_read [OF t o] t o except_ValueError_def
          split: outcome.splits sum.splits if_splits)
  qed
qed

theorem read_config_missing_key_witness:
  "files config_world ''logstash.json'' = Some example_config \<and>
   outcome_at config_world 0 = Succeeds \<and> outcome_at config_world 1 = Succeeds \<and>
   example_loads example_config = Inr (PDict [(''input'', PList [])]) \<and>
   ''output'' \<notin> fst ` set [(''input'', PList [])] \<and>
   fst (read_config example_loads ''logstash.json'' config_world) = Inl (Raise (KeyError ''output''))"
proof -
  have a: "files config_world ''logstash.json'' = Some example_config"
    by (simp add: config_world_def)
  have o: "outcome_at config_world 0 = Succeeds \<and> outcome_at config_world 1 = Succeeds"
    by (simp add: config_world_def fresh_world_def outcome_at_def)
  have b: "example_loads example_config = Inr (PDict [(''input'', PList [])])"
    by (simp add: example_loads_def)
  have c: "''output'' \<notin> fst ` set [(''input'', PList [])]" by simp
  note t = read_config_missing_key
    [of config_world "''logstash.json''" example_config example_loads "[(''input'', PList [])]" PNone]
  from t a o b c obtain k w1 where
    r: "read_config example_loads ''logstash.json'' config_world = (Inl (Raise (KeyError k)), w1)"
    and k: "k = (if ''input'' \<in> fst ` set [(''input'', PList [])] then ''output'' else ''input'')"
    by blast
  from k have "k = ''output''" by simp
  with r a o b c show ?thesis by simp
qed

end
